theory Spec2Isabelle
  imports Main "HOL-Library.AList"
begin

section \<open>Strings and numbers of the JavaScript runtime\<close>

text \<open>
  The server (\<^verbatim>\<open>server.js\<close>) is JavaScript on Node. Strings are modelled as
  \<^typ>\<open>string\<close>; a character outside ASCII is written as its UTF-8 bytes. The value
  \<^verbatim>\<open>undefined\<close> of an absent property is \<^term>\<open>None\<close>.
\<close>

definition digit :: "nat \<Rightarrow> char" where
  "digit n = ''0123456789'' ! (n mod 10)"

function decimal :: "nat \<Rightarrow> string" where
  "decimal n = (if n < 10 then [digit n] else decimal (n div 10) @ [digit n])"
  by pat_completeness auto
termination
  by (relation "measure id") auto

declare decimal.simps [simp del]

text \<open>\<^verbatim>\<open>Number::toString\<close> on an integer (below \<open>10\<^sup>2\<^sup>1\<close> in absolute value).\<close>

definition numberToString :: "int \<Rightarrow> string" where
  "numberToString n = (if n < 0 then ''-'' @ decimal (nat (- n)) else decimal (nat n))"

text \<open>\<^verbatim>\<open>String.prototype.padStart(w, "0")\<close>.\<close>

definition padStart :: "nat \<Rightarrow> string \<Rightarrow> string" where
  "padStart w s = replicate (w - length s) (CHR ''0'') @ s"

text \<open>
  \<^verbatim>\<open>ToString\<close> of a property that holds a string or is absent, as a template literal
  \<^verbatim>\<open>`${x}`\<close> applies it.
\<close>

definition toStr :: "string option \<Rightarrow> string" where
  "toStr v = (case v of None \<Rightarrow> ''undefined'' | Some s \<Rightarrow> s)"

text \<open>\<^verbatim>\<open>ToBoolean\<close> on such a property: \<^verbatim>\<open>undefined\<close> and \<^verbatim>\<open>""\<close> are falsy.\<close>

definition truthy :: "string option \<Rightarrow> bool" where
  "truthy v = (case v of None \<Rightarrow> False | Some s \<Rightarrow> s \<noteq> [])"

section \<open>JavaScript values\<close>

text \<open>
  The values that \<^verbatim>\<open>JSON.parse\<close> returns and that \<^verbatim>\<open>res.json\<close> is given. An object is
  the list of its own properties, each key once, in insertion order; \<open>JNum m e\<close> is
  the finite number \<open>m * 2\<^sup>e\<close>.
\<close>

datatype jsval =
    JUndefined
  | JNull
  | JBool bool
  | JNum int int
  | JStr string
  | JArr "jsval list"
  | JObj "(string \<times> jsval) list"

text \<open>\<^verbatim>\<open>ToBoolean\<close>.\<close>

fun jsTruthy :: "jsval \<Rightarrow> bool" where
  "jsTruthy JUndefined = False"
| "jsTruthy JNull = False"
| "jsTruthy (JBool b) = b"
| "jsTruthy (JNum m e) = (m \<noteq> 0)"
| "jsTruthy (JStr s) = (s \<noteq> [])"
| "jsTruthy (JArr xs) = True"
| "jsTruthy (JObj kvs) = True"

text \<open>
  \<^verbatim>\<open>v[k]\<close> for a key that no prototype defines (\<^verbatim>\<open>days\<close>, \<^verbatim>\<open>source\<close>, ...): only an
  object can have it. On \<^verbatim>\<open>null\<close> and \<^verbatim>\<open>undefined\<close> the read throws; the source
  reads \<^verbatim>\<open>data.days\<close> only behind \<^verbatim>\<open>!data ||\<close>.
\<close>

fun getProp :: "string \<Rightarrow> jsval \<Rightarrow> jsval" where
  "getProp k (JObj kvs) = (case map_of kvs k of None \<Rightarrow> JUndefined | Some v \<Rightarrow> v)"
| "getProp k v = JUndefined"

fun isArray :: "jsval \<Rightarrow> bool" where
  "isArray (JArr xs) = True"
| "isArray v = False"

text \<open>The own enumerable properties that \<^verbatim>\<open>...v\<close> copies into an object literal.\<close>

fun ownProperties :: "jsval \<Rightarrow> (string \<times> jsval) list" where
  "ownProperties (JObj kvs) = kvs"
| "ownProperties (JArr xs) = zip (map (\<lambda>i. numberToString (int i)) [0..<length xs]) xs"
| "ownProperties (JStr s) = zip (map (\<lambda>i. numberToString (int i)) [0..<length s]) (map (\<lambda>c. JStr [c]) s)"
| "ownProperties v = []"

text \<open>
  The object literal \<^verbatim>\<open>{ k1: v1, ..., ...v }\<close>: a property of \<^verbatim>\<open>v\<close> replaces the one
  of the same key written before the spread.
\<close>

definition spreadInto :: "(string \<times> jsval) list \<Rightarrow> jsval \<Rightarrow> jsval" where
  "spreadInto props v = JObj (foldl (\<lambda>acc (k, x). AList.update k x acc) props (ownProperties v))"

definition optStr :: "string option \<Rightarrow> jsval" where
  "optStr v = (case v of None \<Rightarrow> JUndefined | Some s \<Rightarrow> JStr s)"

section \<open>Time values (ECMA-262, Date objects)\<close>

text \<open>
  A Date holds a time value: milliseconds since the epoch in UTC, or \<^verbatim>\<open>NaN\<close>, which
  is \<^term>\<open>None\<close> here. The functions below are the abstract operations of ECMA-262
  that \<^verbatim>\<open>new Date\<close>, \<^verbatim>\<open>getDate\<close>, \<^verbatim>\<open>setDate\<close> and \<^verbatim>\<open>toISOString\<close> are defined by.
\<close>

type_synonym timevalue = "int option"

definition msPerDay :: int where
  "msPerDay = 86400000"

definition msPerHour :: int where
  "msPerHour = 3600000"

definition Day :: "int \<Rightarrow> int" where
  "Day t = t div msPerDay"

definition TimeWithinDay :: "int \<Rightarrow> int" where
  "TimeWithinDay t = t mod msPerDay"

definition DaysInYear :: "int \<Rightarrow> int" where
  "DaysInYear y =
     (if y mod 4 \<noteq> 0 then 365
      else if y mod 100 \<noteq> 0 then 366
      else if y mod 400 \<noteq> 0 then 365
      else 366)"

definition DayFromYear :: "int \<Rightarrow> int" where
  "DayFromYear y =
     365 * (y - 1970) + (y - 1969) div 4 - (y - 1901) div 100 + (y - 1601) div 400"

lemma div_succ:
  fixes z n :: int
  assumes "1 < n"
  shows "(z + 1) div n = z div n + (if z mod n = n - 1 then 1 else 0)"
proof -
  have "(z + 1) div n = z div n + 1 div n + (z mod n + 1 mod n) div n"
    by (rule div_add1_eq)
  moreover have "1 div n = 0" and "1 mod n = 1"
    using assms by simp_all
  ultimately have split: "(z + 1) div n = z div n + (z mod n + 1) div n"
    by simp
  have lo: "0 \<le> z mod n" and hi: "z mod n < n"
    using assms by simp_all
  show ?thesis
  proof (cases "z mod n = n - 1")
    case True
    then have "(z mod n + 1) div n = 1"
      using assms by simp
    with split True show ?thesis by simp
  next
    case False
    with hi have "z mod n + 1 < n" by simp
    with lo have "(z mod n + 1) div n = 0"
      by (simp add: div_pos_pos_trivial)
    with split False show ?thesis by simp
  qed
qed

lemma century_is_leap_candidate:
  fixes y :: int
  assumes "(y - 1901) mod 100 = 99"
  shows "(y - 1969) mod 4 = 3"
proof -
  have "(y - 1901) mod 4 = ((y - 1901) mod 100) mod 4"
    by (simp add: mod_mod_cancel)
  with assms have "(y - 1901) mod 4 = 3" by simp
  then show ?thesis by presburger
qed

lemma DayFromYear_Suc:
  "DayFromYear (y + 1) = DayFromYear y + 365
     + (if (y - 1969) mod 4 = 3 then 1 else 0)
     - (if (y - 1901) mod 100 = 99 then 1 else 0)
     + (if (y - 1601) mod 400 = 399 then 1 else 0)"
proof -
  have a: "(y + 1 - 1969) div 4 = (y - 1969) div 4 + (if (y - 1969) mod 4 = 3 then 1 else 0)"
    using div_succ [of 4 "y - 1969"] by (simp add: algebra_simps)
  have b: "(y + 1 - 1901) div 100 = (y - 1901) div 100 + (if (y - 1901) mod 100 = 99 then 1 else 0)"
    using div_succ [of 100 "y - 1901"] by (simp add: algebra_simps)
  have c: "(y + 1 - 1601) div 400 = (y - 1601) div 400 + (if (y - 1601) mod 400 = 399 then 1 else 0)"
    using div_succ [of 400 "y - 1601"] by (simp add: algebra_simps)
  show ?thesis
    unfolding DayFromYear_def a b c by (simp add: algebra_simps)
qed

lemma DayFromYear_step: "DayFromYear y + 365 \<le> DayFromYear (y + 1)"
  using century_is_leap_candidate [of y] by (simp add: DayFromYear_Suc)

text \<open>
  \<^verbatim>\<open>YearFromTime(t)\<close> is the largest \<open>y\<close> with \<open>TimeFromYear(y) \<le> t\<close>. It is
  computed by a search upwards from a year that is not after it.
\<close>

function yearSearch :: "int \<Rightarrow> int \<Rightarrow> int" where
  "yearSearch y n = (if DayFromYear (y + 1) \<le> n then yearSearch (y + 1) n else y)"
  by pat_completeness auto
termination
proof (relation "measure (\<lambda>(y, n). nat (n - DayFromYear (y + 1) + 1))")
  show "wf (measure (\<lambda>(y, n). nat (n - DayFromYear (y + 1) + 1)))"
    by simp
next
  fix y n :: int
  assume "DayFromYear (y + 1) \<le> n"
  moreover have "DayFromYear (y + 1) + 365 \<le> DayFromYear (y + 1 + 1)"
    by (rule DayFromYear_step)
  ultimately show "((y + 1, n), (y, n)) \<in> measure (\<lambda>(y, n). nat (n - DayFromYear (y + 1) + 1))"
    by simp
qed

declare yearSearch.simps [simp del]

definition YearFromTime :: "int \<Rightarrow> int" where
  "YearFromTime t =
     (let n = Day t in yearSearch (1970 + (if 0 \<le> n then n div 366 else n div 365)) n)"

definition InLeapYear :: "int \<Rightarrow> int" where
  "InLeapYear t = (if DaysInYear (YearFromTime t) = 366 then 1 else 0)"

definition DayWithinYear :: "int \<Rightarrow> int" where
  "DayWithinYear t = Day t - DayFromYear (YearFromTime t)"

text \<open>The number of days of a year before its month \<open>m\<close> (0 is January).\<close>

definition monthStart :: "int \<Rightarrow> int \<Rightarrow> int" where
  "monthStart m leap =
     (if m = 0 then 0 else if m = 1 then 31 else if m = 2 then 59 + leap
      else if m = 3 then 90 + leap else if m = 4 then 120 + leap
      else if m = 5 then 151 + leap else if m = 6 then 181 + leap
      else if m = 7 then 212 + leap else if m = 8 then 243 + leap
      else if m = 9 then 273 + leap else if m = 10 then 304 + leap
      else 334 + leap)"

definition MonthFromTime :: "int \<Rightarrow> int" where
  "MonthFromTime t =
     (let d = DayWithinYear t; leap = InLeapYear t in
      if d < 31 then 0 else if d < 59 + leap then 1 else if d < 90 + leap then 2
      else if d < 120 + leap then 3 else if d < 151 + leap then 4
      else if d < 181 + leap then 5 else if d < 212 + leap then 6
      else if d < 243 + leap then 7 else if d < 273 + leap then 8
      else if d < 304 + leap then 9 else if d < 334 + leap then 10
      else 11)"

definition DateFromTime :: "int \<Rightarrow> int" where
  "DateFromTime t = DayWithinYear t - monthStart (MonthFromTime t) (InLeapYear t) + 1"

definition HourFromTime :: "int \<Rightarrow> int" where
  "HourFromTime t = (t div msPerHour) mod 24"

definition MinFromTime :: "int \<Rightarrow> int" where
  "MinFromTime t = (t div 60000) mod 60"

definition SecFromTime :: "int \<Rightarrow> int" where
  "SecFromTime t = (t div 1000) mod 60"

definition msFromTime :: "int \<Rightarrow> int" where
  "msFromTime t = t mod 1000"

definition MakeDay :: "int \<Rightarrow> int \<Rightarrow> int \<Rightarrow> int" where
  "MakeDay year month dt =
     (let ym = year + month div 12; mn = month mod 12 in
      DayFromYear ym + monthStart mn (if DaysInYear ym = 366 then 1 else 0) + dt - 1)"

definition MakeDate :: "int \<Rightarrow> int \<Rightarrow> int" where
  "MakeDate day time = day * msPerDay + time"

definition maxTime :: int where
  "maxTime = 8640000000000000"

definition TimeClip :: "int \<Rightarrow> timevalue" where
  "TimeClip t = (if \<bar>t\<bar> > maxTime then None else Some t)"


lemma MonthFromTime_range: "0 \<le> MonthFromTime t \<and> MonthFromTime t < 12"
  by (simp add: MonthFromTime_def Let_def)

lemma MakeDay_next_date:
  "MakeDay (YearFromTime t) (MonthFromTime t) (DateFromTime t + 1) = Day t + 1"
proof -
  have "MonthFromTime t div 12 = 0" and "MonthFromTime t mod 12 = MonthFromTime t"
    using MonthFromTime_range [of t] by simp_all
  then show ?thesis
    by (simp add: MakeDay_def DateFromTime_def DayWithinYear_def InLeapYear_def)
qed

lemma MakeDate_next_day: "MakeDate (Day t + 1) (TimeWithinDay t) = t + msPerDay"
  by (simp add: MakeDate_def Day_def TimeWithinDay_def algebra_simps)

section \<open>The local time zone of the server\<close>

text \<open>
  \<^verbatim>\<open>getDate\<close> and \<^verbatim>\<open>setDate\<close> work in the local time of the process, which the source
  does not fix. A zone is a standard offset from UTC in milliseconds and the periods of
  UTC time, each from its start up to its end, in which daylight saving time adds an hour.
  \<^verbatim>\<open>LocalTZA(t, isUTC)\<close> follows ECMA-262: a local time that a transition skips or
  repeats is read with the offset before the transition.
\<close>

datatype timezone = TimeZone (stdOffset: int) (dstPeriods: "(int \<times> int) list")

definition inDst :: "timezone \<Rightarrow> int \<Rightarrow> bool" where
  "inDst tz t = list_ex (\<lambda>(a, b). a \<le> t \<and> t < b) (dstPeriods tz)"

definition LocalTZA :: "timezone \<Rightarrow> int \<Rightarrow> bool \<Rightarrow> int" where
  "LocalTZA tz t isUTC =
     (if isUTC then stdOffset tz + (if inDst tz t then msPerHour else 0)
      else stdOffset tz + (if inDst tz (t - stdOffset tz - msPerHour) then msPerHour else 0))"

definition LocalTime :: "timezone \<Rightarrow> int \<Rightarrow> int" where
  "LocalTime tz t = t + LocalTZA tz t True"

definition UTC :: "timezone \<Rightarrow> int \<Rightarrow> int" where
  "UTC tz t = t - LocalTZA tz t False"

section \<open>The methods of Date that the source calls\<close>

definition getDate :: "timezone \<Rightarrow> timevalue \<Rightarrow> int option" where
  "getDate tz d = (case d of None \<Rightarrow> None | Some t \<Rightarrow> Some (DateFromTime (LocalTime tz t)))"

definition setDate :: "timezone \<Rightarrow> timevalue \<Rightarrow> int option \<Rightarrow> timevalue" where
  "setDate tz d dt =
     (case d of
        None \<Rightarrow> None
      | Some t0 \<Rightarrow>
          (case dt of
             None \<Rightarrow> None
           | Some n \<Rightarrow>
               (let t = LocalTime tz t0;
                    newDate = MakeDate (MakeDay (YearFromTime t) (MonthFromTime t) n) (TimeWithinDay t)
                in TimeClip (UTC tz newDate))))"

text \<open>\<^verbatim>\<open>x + 1\<close> on a number that may be \<^verbatim>\<open>NaN\<close>.\<close>

definition plusOne :: "int option \<Rightarrow> int option" where
  "plusOne x = (case x of None \<Rightarrow> None | Some n \<Rightarrow> Some (n + 1))"

definition yearString :: "int \<Rightarrow> string" where
  "yearString y =
     (if 0 \<le> y \<and> y \<le> 9999 then padStart 4 (decimal (nat y))
      else (if y < 0 then ''-'' else ''+'') @ padStart 6 (decimal (nat \<bar>y\<bar>)))"

definition pad2 :: "int \<Rightarrow> string" where
  "pad2 n = padStart 2 (decimal (nat n))"

text \<open>The ISO 8601 text of a finite time value, in UTC.\<close>

definition isoText :: "int \<Rightarrow> string" where
  "isoText t =
     yearString (YearFromTime t) @ ''-'' @ pad2 (MonthFromTime t + 1) @ ''-''
       @ pad2 (DateFromTime t) @ ''T'' @ pad2 (HourFromTime t) @ '':''
       @ pad2 (MinFromTime t) @ '':'' @ pad2 (SecFromTime t) @ ''.''
       @ padStart 3 (decimal (nat (msFromTime t))) @ ''Z''"

text \<open>
  A thrown value, by its \<^verbatim>\<open>message\<close> property (\<^term>\<open>None\<close> when it has none). A
  function that can throw returns a sum: \<^term>\<open>Inl\<close> is the thrown value.
\<close>

datatype thrown = Thrown (message: "string option")

text \<open>\<^verbatim>\<open>toISOString\<close> throws a RangeError on \<^verbatim>\<open>NaN\<close>.\<close>

definition toISOString :: "timevalue \<Rightarrow> thrown + string" where
  "toISOString d =
     (case d of
        None \<Rightarrow> Inl (Thrown (Some ''Invalid time value''))
      | Some t \<Rightarrow> Inr (isoText t))"

text \<open>The first ten characters, \<^verbatim>\<open>.slice(0, 10)\<close>, of the ISO text.\<close>

definition isoDate :: "int \<Rightarrow> string" where
  "isoDate t = take 10 (isoText t)"


lemma LocalTZA_bounds:
  "stdOffset tz \<le> LocalTZA tz t b \<and> LocalTZA tz t b \<le> stdOffset tz + msPerHour"
  by (simp add: LocalTZA_def msPerHour_def)

lemma setDate_next:
  "setDate tz (Some t) (plusOne (getDate tz (Some t)))
     = TimeClip (UTC tz (LocalTime tz t + msPerDay))"
  by (simp add: setDate_def getDate_def plusOne_def Let_def MakeDay_next_date MakeDate_next_day)

lemma setDate_progress:
  assumes "setDate tz (Some t) (plusOne (getDate tz (Some t))) = Some t'"
  shows "t < t'"
proof -
  from assms have "t' = UTC tz (LocalTime tz t + msPerDay)"
    by (simp add: setDate_next TimeClip_def split: if_splits)
  moreover have "stdOffset tz \<le> LocalTZA tz t True"
    using LocalTZA_bounds [of tz t True] by simp
  moreover have "LocalTZA tz (LocalTime tz t + msPerDay) False \<le> stdOffset tz + msPerHour"
    using LocalTZA_bounds [of tz "LocalTime tz t + msPerDay" False] by simp
  ultimately show ?thesis
    by (simp add: UTC_def LocalTime_def msPerDay_def msPerHour_def)
qed

section \<open>The runtime\<close>

text \<open>
  What the process is given from outside the source:
  \<^item> \<^verbatim>\<open>Date.parse\<close> (ECMA-262 fixes it on the ISO format only and leaves every other
    string to the implementation; \<^term>\<open>None\<close> is \<^verbatim>\<open>NaN\<close>);
  \<^item> the local time zone;
  \<^item> \<^verbatim>\<open>JSON.parse\<close> (\<^term>\<open>None\<close> when it throws a SyntaxError);
  \<^item> \<^verbatim>\<open>process.env.GEMINI_API_KEY\<close>;
  \<^item> the generative model, by what \<^verbatim>\<open>getGenerativeModel\<close>, \<^verbatim>\<open>generateContent\<close> and
    \<^verbatim>\<open>result?.response?.text?.()\<close> together do for a prompt: throw, or yield a text
    or \<^verbatim>\<open>undefined\<close>. The generation config of the source is a constant and is
    left out.
\<close>

datatype generation = Raises thrown | Returns "string option"

record runtime =
  dateParse :: "string \<Rightarrow> int option"
  localZone :: timezone
  jsonParse :: "string \<Rightarrow> jsval option"
  apiKey :: "string option"
  generateContent :: "string \<Rightarrow> generation"

text \<open>\<^verbatim>\<open>new Date(v)\<close> for a string or \<^verbatim>\<open>undefined\<close>.\<close>

definition newDate :: "runtime \<Rightarrow> string option \<Rightarrow> timevalue" where
  "newDate rt v =
     (case v of
        None \<Rightarrow> None
      | Some s \<Rightarrow> (case dateParse rt s of None \<Rightarrow> None | Some t \<Rightarrow> TimeClip t))"

definition isNaN :: "timevalue \<Rightarrow> bool" where
  "isNaN d = (d = None)"

text \<open>\<^verbatim>\<open>a < b\<close> and \<^verbatim>\<open>a <= b\<close> on two Dates: false when either is \<^verbatim>\<open>NaN\<close>.\<close>

definition dateLess :: "timevalue \<Rightarrow> timevalue \<Rightarrow> bool" where
  "dateLess a b = (case a of None \<Rightarrow> False | Some x \<Rightarrow> (case b of None \<Rightarrow> False | Some y \<Rightarrow> x < y))"

definition dateLessEq :: "timevalue \<Rightarrow> timevalue \<Rightarrow> bool" where
  "dateLessEq a b = (case a of None \<Rightarrow> False | Some x \<Rightarrow> (case b of None \<Rightarrow> False | Some y \<Rightarrow> x \<le> y))"

section \<open>enumerateDates\<close>

text \<open>
  The \<^verbatim>\<open>for\<close> loop of \<^verbatim>\<open>enumerateDates\<close>: the test is \<^verbatim>\<open>d <= e\<close>, the body pushes
  \<^verbatim>\<open>d.toISOString().slice(0, 10)\<close>, the step is \<^verbatim>\<open>d.setDate(d.getDate() + 1)\<close>.
\<close>

lemma dateLessEq_Some:
  assumes "dateLessEq d e"
  obtains x y where "d = Some x" and "e = Some y" and "x \<le> y"
  using assms by (auto simp: dateLessEq_def split: option.splits)

function forLoop :: "timezone \<Rightarrow> timevalue \<Rightarrow> timevalue \<Rightarrow> string list \<Rightarrow> thrown + string list" where
  "forLoop tz d e out =
     (if dateLessEq d e
      then (case toISOString d of
              Inl err \<Rightarrow> Inl err
            | Inr str \<Rightarrow> forLoop tz (setDate tz d (plusOne (getDate tz d))) e (out @ [take 10 str]))
      else Inr out)"
  by pat_completeness auto
termination
proof (relation "measure (\<lambda>(tz, d, e, out).
         case d of None \<Rightarrow> 0 | Some x \<Rightarrow> (case e of None \<Rightarrow> 0 | Some y \<Rightarrow> nat (y - x + 1)))")
  show "wf (measure (\<lambda>(tz, d, e, out).
         case d of None \<Rightarrow> 0 | Some x \<Rightarrow> (case e of None \<Rightarrow> 0 | Some y \<Rightarrow> nat (y - x + 1))))"
    by simp
next
  fix tz :: timezone and d e :: timevalue and out :: "string list" and str :: string
  assume "dateLessEq d e"
  then obtain x y where d: "d = Some x" and e: "e = Some y" and le: "x \<le> y"
    by (rule dateLessEq_Some)
  show "((tz, setDate tz d (plusOne (getDate tz d)), e, out @ [take 10 str]), (tz, d, e, out))
        \<in> measure (\<lambda>(tz, d, e, out).
         case d of None \<Rightarrow> 0 | Some x \<Rightarrow> (case e of None \<Rightarrow> 0 | Some y \<Rightarrow> nat (y - x + 1)))"
  proof (cases "setDate tz (Some x) (plusOne (getDate tz (Some x)))")
    case None
    with d e le show ?thesis by simp
  next
    case (Some x')
    then have "x < x'" by (rule setDate_progress)
    with d e le Some show ?thesis by simp
  qed
qed

declare forLoop.simps [simp del]

definition enumerateDates :: "runtime \<Rightarrow> string option \<Rightarrow> string option \<Rightarrow> thrown + string list" where
  "enumerateDates rt isoStart isoEnd =
     (let s = newDate rt isoStart;
          e = newDate rt isoEnd;
          out = []
      in if isNaN s \<or> isNaN e \<or> dateLess e s then Inr out
         else forLoop (localZone rt) s e out)"

section \<open>The request and its validation\<close>

text \<open>
  The JSON body of \<^verbatim>\<open>POST /api/plan\<close>, at the types of the data model, which are those
  the client sends: strings, an integer for \<^verbatim>\<open>travelers\<close>, a list of strings for
  \<^verbatim>\<open>interests\<close>. \<^term>\<open>None\<close> is an absent property. A request without a body is the
  one with every property absent (\<^verbatim>\<open>req.body || {}\<close>). A property of another JSON type
  (a number or an object where the model has a string) is outside the model.
\<close>

record TripRequest =
  destination :: "string option"
  startDate :: "string option"
  endDate :: "string option"
  travelers :: "int option"
  interests :: "string list option"
  budgetLevel :: "string option"
  pace :: "string option"
  extras :: "string option"

text \<open>\<^verbatim>\<open>body[k]\<close> for the keys that \<^verbatim>\<open>validate\<close> reads.\<close>

definition field :: "TripRequest \<Rightarrow> string \<Rightarrow> string option" where
  "field body k =
     (if k = ''destination'' then destination body
      else if k = ''startDate'' then startDate body
      else if k = ''endDate'' then endDate body
      else None)"

definition required :: "string list" where
  "required = [''destination'', ''startDate'', ''endDate'']"

definition validate :: "runtime \<Rightarrow> TripRequest \<Rightarrow> string list" where
  "validate rt body =
     (let errors = foldl (\<lambda>errors k. if \<not> truthy (field body k)
                                       then errors @ [k @ '' is required''] else errors)
                     [] required
      in if truthy (startDate body) \<and> truthy (endDate body)
         then (let s = newDate rt (startDate body);
                   e = newDate rt (endDate body)
               in if isNaN s \<or> isNaN e \<or> dateLess e s
                  then errors @ [''Invalid date range''] else errors)
         else errors)"

section \<open>buildMockPlan\<close>

definition enDash :: string where
  "enDash = [CHR 0xE2, CHR 0x80, CHR 0x93]"

text \<open>The callback of \<^verbatim>\<open>.map((d, i) => ...)\<close>.\<close>

definition dayPlan :: "TripRequest \<Rightarrow> string \<Rightarrow> nat \<Rightarrow> jsval" where
  "dayPlan args d i =
     JObj [
       (''date'', JStr d),
       (''title'', JStr (''Day '' @ numberToString (int i + 1) @ '' in '' @ toStr (destination args))),
       (''summary'', JStr (''Highlights of '' @ toStr (destination args) @ '' tailored to ''
          @ toStr (budgetLevel args) @ '' budget and '' @ toStr (pace args) @ '' pace.'')),
       (''morning'', JStr (''08:30 '' @ enDash @ '' City stroll and landmark visit near central ''
          @ toStr (destination args) @ ''.'')),
       (''afternoon'', JStr (''13:00 '' @ enDash
          @ '' Museum/market in a nearby district; short transfer.'')),
       (''evening'', JStr (''18:30 '' @ enDash @ '' Sunset spot + riverside/old-town walk.'')),
       (''foodSuggestions'', JArr [
          JStr ''Local breakfast cafe near center'',
          JStr ''Lunch at a well-rated casual spot'',
          JStr ''Dinner at a popular local kitchen'']),
       (''tips'', JArr [
          JStr ''Buy transit pass/card to save time'',
          JStr ''Prebook tickets for major attractions'',
          JStr ''Carry cash card/UPI backup''])]"

definition mapIndexed :: "('a \<Rightarrow> nat \<Rightarrow> 'b) \<Rightarrow> 'a list \<Rightarrow> 'b list" where
  "mapIndexed f xs = map (\<lambda>(x, i). f x i) (zip xs [0..<length xs])"

definition buildMockPlan :: "runtime \<Rightarrow> TripRequest \<Rightarrow> thrown + jsval" where
  "buildMockPlan rt args =
     (case enumerateDates rt (startDate args) (endDate args) of
        Inl err \<Rightarrow> Inl err
      | Inr dates \<Rightarrow>
          (let days = mapIndexed (dayPlan args) dates
           in Inr (JObj [
                (''destination'', optStr (destination args)),
                (''startDate'', optStr (startDate args)),
                (''endDate'', optStr (endDate args)),
                (''days'', JArr days),
                (''budgetLevel'', optStr (budgetLevel args)),
                (''pace'', optStr (pace args))])))"

section \<open>The plan endpoint\<close>

definition safeParseJSON :: "runtime \<Rightarrow> string \<Rightarrow> jsval" where
  "safeParseJSON rt s = (case jsonParse rt s of None \<Rightarrow> JNull | Some v \<Rightarrow> v)"

definition nl :: string where
  "nl = [CHR 0x0A]"

text \<open>\<^verbatim>\<open>interests.join(', ')\<close>.\<close>

fun joinComma :: "string list \<Rightarrow> string" where
  "joinComma [] = []"
| "joinComma [x] = x"
| "joinComma (x # y # ys) = x @ '', '' @ joinComma (y # ys)"

text \<open>\<^verbatim>\<open>x || d\<close> on a string.\<close>

definition orElse :: "string \<Rightarrow> string \<Rightarrow> string" where
  "orElse x d = (if x \<noteq> [] then x else d)"

definition prompt :: "TripRequest \<Rightarrow> string" where
  "prompt r =
     nl @ ''You are a meticulous travel planner. Create a practical, locally-optimized itinerary.'' @ nl
     @ nl
     @ ''Constraints:'' @ nl
     @ ''- Destination: '' @ toStr (destination r) @ nl
     @ ''- Dates: '' @ toStr (startDate r) @ '' to '' @ toStr (endDate r) @ nl
     @ ''- Travelers: '' @ (case travelers r of None \<Rightarrow> ''undefined'' | Some n \<Rightarrow> numberToString n) @ nl
     @ ''- Interests: ''
       @ orElse (joinComma (case interests r of None \<Rightarrow> [] | Some xs \<Rightarrow> xs)) ''general sightseeing'' @ nl
     @ ''- Budget: '' @ toStr (budgetLevel r) @ '' (low/medium/high)'' @ nl
     @ ''- Pace: '' @ toStr (pace r) @ '' (chill/balanced/packed)'' @ nl
     @ ''- Extras: '' @ orElse (case extras r of None \<Rightarrow> [] | Some x \<Rightarrow> x) ''none'' @ nl
     @ nl
     @ ''Rules:'' @ nl
     @ ''- Return ONLY JSON that matches the schema.'' @ nl
     @ ''- Each day must include: title, summary, morning, afternoon, evening, foodSuggestions (array), tips (array).'' @ nl
     @ ''- Keep items geographically sensible to reduce backtracking.'' @ nl
     @ ''- Put approximate times and short reasons for each stop.'' @ nl"

text \<open>The destructuring of \<^verbatim>\<open>req.body\<close> with its defaults.\<close>

definition withDefaults :: "TripRequest \<Rightarrow> TripRequest" where
  "withDefaults b =
     b\<lparr> travelers := (case travelers b of None \<Rightarrow> Some 1 | Some n \<Rightarrow> Some n),
        interests := (case interests b of None \<Rightarrow> Some [] | Some xs \<Rightarrow> Some xs),
        budgetLevel := (case budgetLevel b of None \<Rightarrow> Some ''medium'' | Some s \<Rightarrow> Some s),
        pace := (case pace b of None \<Rightarrow> Some ''balanced'' | Some s \<Rightarrow> Some s),
        extras := (case extras b of None \<Rightarrow> Some [] | Some s \<Rightarrow> Some s) \<rparr>"

text \<open>
  The argument \<^verbatim>\<open>{ destination, startDate, endDate, travelers, interests, budgetLevel, pace }\<close>
  of the three calls of \<^verbatim>\<open>buildMockPlan\<close>: it has no \<^verbatim>\<open>extras\<close>.
\<close>

definition mockArgs :: "TripRequest \<Rightarrow> TripRequest" where
  "mockArgs r = r\<lparr> extras := None \<rparr>"

text \<open>An argument of \<^verbatim>\<open>console.error\<close>.\<close>

datatype logarg = LogStr string | LogErr thrown

record reply =
  status :: nat
  body :: jsval
  logged :: "logarg list list"

text \<open>\<^verbatim>\<open>res.json(...)\<close> answers with status 200 unless \<^verbatim>\<open>res.status\<close> was called.\<close>

definition planned :: "string \<Rightarrow> jsval \<Rightarrow> logarg list list \<Rightarrow> reply" where
  "planned source plan entries =
     \<lparr> status = 200,
       body = spreadInto [(''ok'', JBool True), (''source'', JStr source)] plan,
       logged = entries \<rparr>"

text \<open>
  A fallback answer: \<^verbatim>\<open>const mock = buildMockPlan({...}); return res.json({ ok: true,
  source, ...mock })\<close>. What \<^verbatim>\<open>buildMockPlan\<close> throws is thrown on.
\<close>

definition mockReply :: "runtime \<Rightarrow> TripRequest \<Rightarrow> string \<Rightarrow> logarg list list \<Rightarrow> thrown + reply" where
  "mockReply rt r source entries =
     (case buildMockPlan rt (mockArgs r) of
        Inl err \<Rightarrow> Inl err
      | Inr mock \<Rightarrow> Inr (planned source mock entries))"

text \<open>\<^verbatim>\<open>result?.response?.text?.() || '{}'\<close>.\<close>

definition responseText :: "string option \<Rightarrow> string" where
  "responseText t = orElse (case t of None \<Rightarrow> [] | Some s \<Rightarrow> s) ''{}''"

text \<open>The body of the \<^verbatim>\<open>try\<close> block: \<^term>\<open>Inl\<close> is what reaches \<^verbatim>\<open>catch\<close>.\<close>

definition tryBlock :: "runtime \<Rightarrow> TripRequest \<Rightarrow> thrown + reply" where
  "tryBlock rt r =
     (case generateContent rt (prompt r) of
        Raises err \<Rightarrow> Inl err
      | Returns t \<Rightarrow>
          (let text = responseText t;
               data = safeParseJSON rt text
           in if \<not> jsTruthy data \<or> \<not> isArray (getProp ''days'' data)
              then mockReply rt r ''fallback-mock'' []
              else Inr (planned ''gemini'' data [])))"

text \<open>\<^verbatim>\<open>console.error('AI error:', err?.message || err)\<close>.\<close>

definition logError :: "thrown \<Rightarrow> logarg list" where
  "logError err =
     [LogStr ''AI error:'',
      (case message err of
         None \<Rightarrow> LogErr err
       | Some m \<Rightarrow> if m \<noteq> [] then LogStr m else LogErr err)]"

text \<open>
  The handler of \<^verbatim>\<open>POST /api/plan\<close>. \<^term>\<open>Inl\<close> is a value thrown out of the handler,
  for which it sends no answer.
\<close>

definition planHandler :: "runtime \<Rightarrow> TripRequest \<Rightarrow> thrown + reply" where
  "planHandler rt reqBody =
     (let errors = validate rt reqBody in
      if errors \<noteq> []
      then Inr \<lparr> status = 400,
                 body = JObj [(''ok'', JBool False), (''errors'', JArr (map JStr errors))],
                 logged = [] \<rparr>
      else
        (let r = withDefaults reqBody in
         if \<not> truthy (apiKey rt)
         then mockReply rt r ''mock'' []
         else
           (case tryBlock rt r of
              Inr answer \<Rightarrow> Inr answer
            | Inl err \<Rightarrow> mockReply rt r ''error-mock'' [logError err])))"

section \<open>Observations of an answer\<close>

text \<open>
  What a client reads off the outcome of the handler: nothing when the handler threw,
  else a property of the JSON body, and the \<^verbatim>\<open>date\<close> of each entry of \<^verbatim>\<open>days\<close>.
\<close>

definition answerProp :: "string \<Rightarrow> thrown + reply \<Rightarrow> jsval option" where
  "answerProp k a = (case a of Inl err \<Rightarrow> None | Inr r \<Rightarrow> Some (getProp k (body r)))"

definition answerStatus :: "thrown + reply \<Rightarrow> nat option" where
  "answerStatus a = (case a of Inl err \<Rightarrow> None | Inr r \<Rightarrow> Some (status r))"

definition answerLog :: "thrown + reply \<Rightarrow> logarg list list option" where
  "answerLog a = (case a of Inl err \<Rightarrow> None | Inr r \<Rightarrow> Some (logged r))"

definition datesOf :: "jsval \<Rightarrow> jsval list" where
  "datesOf plan = (case getProp ''days'' plan of JArr ds \<Rightarrow> map (getProp ''date'') ds | _ \<Rightarrow> [])"


text \<open>
  The dates that a walk in steps of whole days from the instant \<open>s\<close> up to the instant
  \<open>e\<close> lists: entry \<open>i\<close> is the UTC date of \<open>s\<close> plus \<open>i\<close> days.
\<close>

definition daysFrom :: "int \<Rightarrow> int \<Rightarrow> string list" where
  "daysFrom s e =
     map (\<lambda>i. isoDate (s + int i * msPerDay)) [0..<nat ((e - s) div msPerDay + 1)]"


section \<open>A concrete runtime\<close>

text \<open>
  \<^verbatim>\<open>Date.parse\<close> on the date-only ISO form \<^verbatim>\<open>YYYY-MM-DD\<close>, which ECMA-262 reads as
  midnight UTC of that day; every other string is \<^verbatim>\<open>NaN\<close> here.
\<close>

definition digitValue :: "char \<Rightarrow> int option" where
  "digitValue c =
     (let n = (of_char c :: nat) in if 48 \<le> n \<and> n \<le> 57 then Some (int n - 48) else None)"

fun digits :: "int \<Rightarrow> string \<Rightarrow> int option" where
  "digits acc [] = Some acc"
| "digits acc (c # cs) =
     (case digitValue c of None \<Rightarrow> None | Some v \<Rightarrow> digits (10 * acc + v) cs)"

definition daysInMonth :: "int \<Rightarrow> int \<Rightarrow> int" where
  "daysInMonth y m =
     (if m = 2 then (if DaysInYear y = 366 then 29 else 28)
      else if m = 4 \<or> m = 6 \<or> m = 9 \<or> m = 11 then 30 else 31)"

definition isoDateParse :: "string \<Rightarrow> int option" where
  "isoDateParse s =
     (if length s = 10 \<and> s ! 4 = CHR ''-'' \<and> s ! 7 = CHR ''-''
      then (case digits 0 (take 4 s) of
              None \<Rightarrow> None
            | Some y \<Rightarrow>
                (case digits 0 (take 2 (drop 5 s)) of
                   None \<Rightarrow> None
                 | Some m \<Rightarrow>
                     (case digits 0 (drop 8 s) of
                        None \<Rightarrow> None
                      | Some d \<Rightarrow>
                          if 1 \<le> m \<and> m \<le> 12 \<and> 1 \<le> d \<and> d \<le> daysInMonth y m
                          then Some (MakeDate (MakeDay y (m - 1) d) 0)
                          else None)))
      else None)"

definition utcZone :: timezone where
  "utcZone = TimeZone 0 []"

text \<open>
  New York in 2025: five hours behind UTC, with daylight saving time from
  2025-03-09T07:00Z up to 2025-11-02T06:00Z.
\<close>

definition newYork2025 :: timezone where
  "newYork2025 = TimeZone (- 18000000) [(1741503600000, 1762063200000)]"

text \<open>The JSON text \<^verbatim>\<open>{"days":[],"source":"cache"}\<close> and what \<^verbatim>\<open>JSON.parse\<close> makes of it.\<close>

definition cachedText :: string where
  "cachedText = ''{'' @ [CHR 0x22] @ ''days'' @ [CHR 0x22] @ '':[],'' @ [CHR 0x22] @ ''source''
     @ [CHR 0x22] @ '':'' @ [CHR 0x22] @ ''cache'' @ [CHR 0x22] @ ''}''"

definition cachedParse :: "string \<Rightarrow> jsval option" where
  "cachedParse s =
     (if s = cachedText then Some (JObj [(''days'', JArr []), (''source'', JStr ''cache'')])
      else None)"

text \<open>A server in UTC without an API key, and variants of it.\<close>

definition utcRuntime :: runtime where
  "utcRuntime =
     \<lparr> dateParse = isoDateParse, localZone = utcZone, jsonParse = cachedParse,
       apiKey = None, generateContent = (\<lambda>p. Returns None) \<rparr>"

definition newYorkRuntime :: runtime where
  "newYorkRuntime = utcRuntime \<lparr> localZone := newYork2025 \<rparr>"

definition failingRuntime :: "thrown \<Rightarrow> runtime" where
  "failingRuntime err = utcRuntime \<lparr> apiKey := Some ''key'', generateContent := (\<lambda>p. Raises err) \<rparr>"


definition emptyRequest :: TripRequest where
  "emptyRequest =
     \<lparr> destination = None, startDate = None, endDate = None, travelers = None,
       interests = None, budgetLevel = None, pace = None, extras = None \<rparr>"

definition romeInJune :: TripRequest where
  "romeInJune =
     emptyRequest \<lparr> destination := Some ''Rome'', startDate := Some ''2025-06-01'',
                    endDate := Some ''2025-06-03'' \<rparr>"

definition familyTrip :: TripRequest where
  "familyTrip =
     romeInJune \<lparr> travelers := Some 4, interests := Some [''food'', ''museums''],
                  extras := Some ''stroller friendly'' \<rparr>"

definition romeInNovember :: TripRequest where
  "romeInNovember =
     emptyRequest \<lparr> destination := Some ''Rome'', startDate := Some ''2025-11-01'',
                    endDate := Some ''2025-11-03'' \<rparr>"

section \<open>The year of a time value\<close>

lemma DayFromYear_1970: "DayFromYear 1970 = 0"
  by (simp add: DayFromYear_def)

lemma fourth_century_is_century:
  fixes y :: int
  assumes "(y - 1601) mod 400 = 399"
  shows "(y - 1901) mod 100 = 99"
proof -
  have "(y - 1601) mod 100 = ((y - 1601) mod 400) mod 100"
    by (simp add: mod_mod_cancel)
  with assms have "(y - 1601) mod 100 = 99" by simp
  moreover have "(y - 1901) mod 100 = ((y - 1601) mod 100 - 300 mod 100) mod 100"
    using mod_diff_eq [of "y - 1601" 100 300] by simp
  ultimately show ?thesis by simp
qed

lemma DayFromYear_step_le: "DayFromYear (y + 1) \<le> DayFromYear y + 366"
  using century_is_leap_candidate [of y] fourth_century_is_century [of y]
  by (simp add: DayFromYear_Suc)

lemma DayFromYear_after_1970: "0 \<le> k \<Longrightarrow> DayFromYear (1970 + k) \<le> 366 * k"
proof (induction k rule: int_ge_induct)
  case base
  show ?case by (simp add: DayFromYear_1970)
next
  case (step k)
  have "DayFromYear (1970 + (k + 1)) \<le> DayFromYear (1970 + k) + 366"
    using DayFromYear_step_le [of "1970 + k"] by (simp add: add.assoc)
  with step.IH show ?case by simp
qed

lemma DayFromYear_before_1970: "k \<le> 0 \<Longrightarrow> DayFromYear (1970 + k) \<le> 365 * k"
proof (induction k rule: int_le_induct)
  case base
  show ?case by (simp add: DayFromYear_1970)
next
  case (step k)
  have "DayFromYear (1970 + (k - 1)) + 365 \<le> DayFromYear (1970 + k)"
    using DayFromYear_step [of "1970 + (k - 1)"] by (simp add: algebra_simps)
  with step.IH show ?case by simp
qed

lemma yearSearch_start:
  "DayFromYear (1970 + (if 0 \<le> n then n div 366 else n div 365)) \<le> n"
proof (cases "0 \<le> n")
  case True
  then have "0 \<le> n div 366" by (simp add: pos_imp_zdiv_nonneg_iff)
  then have "DayFromYear (1970 + n div 366) \<le> 366 * (n div 366)"
    by (rule DayFromYear_after_1970)
  also have "366 * (n div 366) \<le> n"
    using div_mult_mod_eq [of n 366] pos_mod_sign [of 366 n] by (simp add: algebra_simps)
  finally show ?thesis using True by simp
next
  case False
  then have "n div 365 < 0" by (simp add: pos_imp_zdiv_neg_iff)
  then have "n div 365 \<le> 0" by simp
  then have "DayFromYear (1970 + n div 365) \<le> 365 * (n div 365)"
    by (rule DayFromYear_before_1970)
  also have "365 * (n div 365) \<le> n"
    using div_mult_mod_eq [of n 365] pos_mod_sign [of 365 n] by (simp add: algebra_simps)
  finally show ?thesis using False by simp
qed

lemma yearSearch_finds:
  "DayFromYear y \<le> n \<Longrightarrow>
     DayFromYear (yearSearch y n) \<le> n \<and> n < DayFromYear (yearSearch y n + 1)"
proof (induction y n rule: yearSearch.induct)
  case (1 y n)
  show ?case
  proof (cases "DayFromYear (y + 1) \<le> n")
    case True
    with "1.IH" show ?thesis by (subst (1 2) yearSearch.simps) simp
  next
    case False
    with "1.prems" show ?thesis by (subst (1 2) yearSearch.simps) simp
  qed
qed

text \<open>\<^verbatim>\<open>YearFromTime(t)\<close> is the year whose days hold the day of \<open>t\<close>.\<close>

lemma YearFromTime_spec:
  "DayFromYear (YearFromTime t) \<le> Day t \<and> Day t < DayFromYear (YearFromTime t + 1)"
  using yearSearch_finds [OF yearSearch_start [of "Day t"]]
  by (simp add: YearFromTime_def Let_def)

lemma DayFromYear_mono: "y \<le> z \<Longrightarrow> DayFromYear y \<le> DayFromYear z"
proof (induction z rule: int_ge_induct)
  case base
  show ?case by simp
next
  case (step z)
  with DayFromYear_step [of z] show ?case by simp
qed

lemma YearFromTime_largest: "DayFromYear y \<le> Day t \<Longrightarrow> y \<le> YearFromTime t"
proof (rule ccontr)
  assume le: "DayFromYear y \<le> Day t" and "\<not> y \<le> YearFromTime t"
  then have "YearFromTime t + 1 \<le> y" by simp
  then have "DayFromYear (YearFromTime t + 1) \<le> DayFromYear y" by (rule DayFromYear_mono)
  with le YearFromTime_spec [of t] show False by simp
qed

section \<open>The date of a time value\<close>








section \<open>The loop in a zone without daylight saving time\<close>

lemma LocalTZA_fixed: "dstPeriods tz = [] \<Longrightarrow> LocalTZA tz t b = stdOffset tz"
  by (simp add: LocalTZA_def inDst_def)

lemma setDate_fixed:
  assumes "dstPeriods tz = []"
  shows "setDate tz (Some t) (plusOne (getDate tz (Some t))) = TimeClip (t + msPerDay)"
  using assms by (simp add: setDate_next UTC_def LocalTime_def LocalTZA_fixed)

lemma forLoop_stop: "\<not> dateLessEq d e \<Longrightarrow> forLoop tz d e out = Inr out"
  by (simp add: forLoop.simps)

lemma forLoop_step:
  "x \<le> y \<Longrightarrow> forLoop tz (Some x) (Some y) out
     = forLoop tz (setDate tz (Some x) (plusOne (getDate tz (Some x)))) (Some y) (out @ [isoDate x])"
  by (subst forLoop.simps) (simp add: dateLessEq_def toISOString_def isoDate_def)

lemma forLoop_fixed:
  assumes fixed: "dstPeriods tz = []"
  shows "- maxTime \<le> d \<Longrightarrow> e \<le> maxTime \<Longrightarrow> nat ((e - d) div msPerDay + 1) = n \<Longrightarrow>
         forLoop tz (Some d) (Some e) out
           = Inr (out @ map (\<lambda>i. isoDate (d + int i * msPerDay)) [0..<n])"
proof (induction n arbitrary: d out)
  case 0
  then have "(e - d) div msPerDay < 0" by simp
  then have "e < d" by (simp add: msPerDay_def pos_imp_zdiv_neg_iff)
  then show ?case by (simp add: forLoop_stop dateLessEq_def)
next
  case (Suc n)
  then have "0 \<le> (e - d) div msPerDay" by simp
  then have le: "d \<le> e" by (simp add: msPerDay_def pos_imp_zdiv_nonneg_iff)
  have step: "forLoop tz (Some d) (Some e) out
      = forLoop tz (TimeClip (d + msPerDay)) (Some e) (out @ [isoDate d])"
    using le fixed by (simp add: forLoop_step setDate_fixed)
  show ?case
  proof (cases "d + msPerDay \<le> e")
    case True
    with Suc.prems have clip: "TimeClip (d + msPerDay) = Some (d + msPerDay)"
      by (simp add: TimeClip_def msPerDay_def maxTime_def)
    have "(e - d) div msPerDay = (e - (d + msPerDay)) div msPerDay + 1"
      using div_add_self2 [of msPerDay "e - (d + msPerDay)"] by (simp add: msPerDay_def)
    with Suc.prems have n: "nat ((e - (d + msPerDay)) div msPerDay + 1) = n" by simp
    have lo: "- maxTime \<le> d + msPerDay" using Suc.prems by (simp add: msPerDay_def)
    have "forLoop tz (Some (d + msPerDay)) (Some e) (out @ [isoDate d])
        = Inr ((out @ [isoDate d]) @ map (\<lambda>i. isoDate (d + msPerDay + int i * msPerDay)) [0..<n])"
      by (rule Suc.IH [OF lo Suc.prems(2) n])
    then have "forLoop tz (Some d) (Some e) out
        = Inr ((out @ [isoDate d]) @ map (\<lambda>i. isoDate (d + msPerDay + int i * msPerDay)) [0..<n])"
      by (simp only: step clip)
    also have "(out @ [isoDate d]) @ map (\<lambda>i. isoDate (d + msPerDay + int i * msPerDay)) [0..<n]
        = out @ map (\<lambda>i. isoDate (d + int i * msPerDay)) [0..<Suc n]"
      by (simp add: map_upt_Suc algebra_simps del: upt_Suc)
    finally show ?thesis .
  next
    case False
    with le have "(e - d) div msPerDay = 0"
      by (simp add: div_pos_pos_trivial msPerDay_def)
    with Suc.prems have n0: "n = 0" by simp
    have "\<not> dateLessEq (TimeClip (d + msPerDay)) (Some e)"
      using False by (simp add: dateLessEq_def TimeClip_def)
    then show ?thesis
      by (simp add: step forLoop_stop n0)
  qed
qed

lemma newDate_range: "newDate rt v = Some t \<Longrightarrow> - maxTime \<le> t \<and> t \<le> maxTime"
  by (auto simp: newDate_def TimeClip_def split: option.splits if_splits)

lemma enumerateDates_fixed:
  assumes "dstPeriods (localZone rt) = []"
    and "newDate rt a = Some s" and "newDate rt b = Some e"
  shows "enumerateDates rt a b = Inr (daysFrom s e)"
proof (cases "e < s")
  case True
  then have "(e - s) div msPerDay < 0" by (simp add: msPerDay_def pos_imp_zdiv_neg_iff)
  with True assms show ?thesis
    by (simp add: enumerateDates_def isNaN_def dateLess_def daysFrom_def)
next
  case False
  have "forLoop (localZone rt) (Some s) (Some e) []
      = Inr ([] @ map (\<lambda>i. isoDate (s + int i * msPerDay)) [0..<nat ((e - s) div msPerDay + 1)])"
    using newDate_range [OF assms(2)] newDate_range [OF assms(3)]
    by (intro forLoop_fixed [OF assms(1)]) simp_all
  with False assms show ?thesis
    by (simp add: enumerateDates_def isNaN_def dateLess_def daysFrom_def)
qed

section \<open>The loop never throws\<close>

lemma forLoop_total: "\<exists>dates. forLoop tz d e out = Inr dates"
proof (induction tz d e out rule: forLoop.induct)
  case (1 tz d e out)
  show ?case
  proof (cases "dateLessEq d e")
    case False
    then show ?thesis by (simp add: forLoop_stop)
  next
    case True
    then obtain x y where d: "d = Some x" and e: "e = Some y" and "x \<le> y"
      by (rule dateLessEq_Some)
    then have iso: "toISOString d = Inr (isoText x)" by (simp add: toISOString_def)
    from "1.IH" [OF True iso] obtain dates where
      "forLoop tz (setDate tz d (plusOne (getDate tz d))) e (out @ [take 10 (isoText x)]) = Inr dates"
      by blast
    with True iso show ?thesis
      by (subst forLoop.simps) simp
  qed
qed

lemma enumerateDates_total: "\<exists>dates. enumerateDates rt a b = Inr dates"
  using forLoop_total by (simp add: enumerateDates_def Let_def)

lemma enumerateDates_degenerate:
  "newDate rt a = None \<or> newDate rt b = None \<or> dateLess (newDate rt b) (newDate rt a)
     \<Longrightarrow> enumerateDates rt a b = Inr []"
  by (auto simp: enumerateDates_def isNaN_def)


section \<open>The listed dates\<close>




lemma enumerateDates_runtime:
  assumes "dateParse rt' = dateParse rt" and "localZone rt' = localZone rt"
  shows "enumerateDates rt' a b = enumerateDates rt a b"
  using assms by (simp add: enumerateDates_def newDate_def cong: option.case_cong)

section \<open>Evaluation of the concrete runtime\<close>

lemma parse_june_1: "isoDateParse ''2025-06-01'' = Some 1748736000000"
  by code_simp

lemma parse_june_3: "isoDateParse ''2025-06-03'' = Some 1748908800000"
  by code_simp

lemma parse_november_1: "isoDateParse ''2025-11-01'' = Some 1761955200000"
  by code_simp

lemma parse_november_3: "isoDateParse ''2025-11-03'' = Some 1762128000000"
  by code_simp

lemma enumerateDates_june:
  "enumerateDates utcRuntime (Some ''2025-06-01'') (Some ''2025-06-03'')
     = Inr [''2025-06-01'', ''2025-06-02'', ''2025-06-03'']"
  by code_simp

lemma enumerateDates_november_newYork:
  "enumerateDates newYorkRuntime (Some ''2025-11-01'') (Some ''2025-11-03'')
     = Inr [''2025-11-01'', ''2025-11-02'']"
  by code_simp


section \<open>Validation\<close>

lemma validate_eq:
  "validate rt b =
     (if truthy (destination b) then [] else [''destination is required''])
     @ (if truthy (startDate b) then [] else [''startDate is required''])
     @ (if truthy (endDate b) then [] else [''endDate is required''])
     @ (if truthy (startDate b) \<and> truthy (endDate b)
           \<and> (newDate rt (startDate b) = None \<or> newDate rt (endDate b) = None
                \<or> dateLess (newDate rt (endDate b)) (newDate rt (startDate b)))
        then [''Invalid date range''] else [])"
  by (simp add: validate_def required_def field_def isNaN_def Let_def)

lemma planHandler_invalid:
  "validate rt b \<noteq> [] \<Longrightarrow>
     planHandler rt b = Inr \<lparr> status = 400,
       body = JObj [(''ok'', JBool False), (''errors'', JArr (map JStr (validate rt b)))],
       logged = [] \<rparr>"
  by (simp add: planHandler_def Let_def)

lemma validate_emptyRequest:
  "validate rt emptyRequest
     = [''destination is required'', ''startDate is required'', ''endDate is required'']"
  by (simp add: validate_eq emptyRequest_def truthy_def)

lemma validate_romeInJune: "dateParse rt = isoDateParse \<Longrightarrow> validate rt romeInJune = []"
  by (simp add: validate_eq romeInJune_def emptyRequest_def truthy_def newDate_def
      parse_june_1 parse_june_3 TimeClip_def maxTime_def dateLess_def)

text \<open>
  Claim C5. Validation applies its rules independently and collects every violation: the
  error list is one \<open>"<field> is required"\<close> for each of \<^verbatim>\<open>destination\<close>,
  \<^verbatim>\<open>startDate\<close>, \<^verbatim>\<open>endDate\<close> that is falsy, in this order, followed by the date-range
  error when it applies; in particular each absent required field contributes its error.
  When the list is not empty, the endpoint answers HTTP 400 with the body
  \<^verbatim>\<open>{ ok: false, errors }\<close> that lists all of them.
\<close>

theorem validation_collects_every_violation:
  "validate rt b =
       map (\<lambda>k. k @ '' is required'') (filter (\<lambda>k. \<not> truthy (field b k)) required)
       @ (if truthy (startDate b) \<and> truthy (endDate b)
             \<and> (newDate rt (startDate b) = None \<or> newDate rt (endDate b) = None
                  \<or> dateLess (newDate rt (endDate b)) (newDate rt (startDate b)))
          then [''Invalid date range''] else [])
   \<and> (destination b = None \<longrightarrow> ''destination is required'' \<in> set (validate rt b))
   \<and> (startDate b = None \<longrightarrow> ''startDate is required'' \<in> set (validate rt b))
   \<and> (endDate b = None \<longrightarrow> ''endDate is required'' \<in> set (validate rt b))
   \<and> (validate rt b \<noteq> [] \<longrightarrow>
        planHandler rt b = Inr \<lparr> status = 400,
          body = JObj [(''ok'', JBool False), (''errors'', JArr (map JStr (validate rt b)))],
          logged = [] \<rparr>)"
proof (intro conjI impI)
  show "validate rt b =
       map (\<lambda>k. k @ '' is required'') (filter (\<lambda>k. \<not> truthy (field b k)) required)
       @ (if truthy (startDate b) \<and> truthy (endDate b)
             \<and> (newDate rt (startDate b) = None \<or> newDate rt (endDate b) = None
                  \<or> dateLess (newDate rt (endDate b)) (newDate rt (startDate b)))
          then [''Invalid date range''] else [])"
    by (simp add: validate_eq required_def field_def)
next
  assume "destination b = None"
  then show "''destination is required'' \<in> set (validate rt b)"
    by (simp add: validate_eq truthy_def)
next
  assume "startDate b = None"
  then show "''startDate is required'' \<in> set (validate rt b)"
    by (simp add: validate_eq truthy_def)
next
  assume "endDate b = None"
  then show "''endDate is required'' \<in> set (validate rt b)"
    by (simp add: validate_eq truthy_def)
next
  assume "validate rt b \<noteq> []"
  then show "planHandler rt b = Inr \<lparr> status = 400,
          body = JObj [(''ok'', JBool False), (''errors'', JArr (map JStr (validate rt b)))],
          logged = [] \<rparr>"
    by (rule planHandler_invalid)
qed

text \<open>
  Claim C5, on the request with no property at all: the three errors are all reported, in
  one answer with status 400.
\<close>

theorem validation_collects_every_violation_witness:
  "destination emptyRequest = None \<and> startDate emptyRequest = None \<and> endDate emptyRequest = None
   \<and> validate utcRuntime emptyRequest
       = [''destination is required'', ''startDate is required'', ''endDate is required'']
   \<and> planHandler utcRuntime emptyRequest = Inr \<lparr> status = 400,
        body = JObj [(''ok'', JBool False), (''errors'', JArr [JStr ''destination is required'',
          JStr ''startDate is required'', JStr ''endDate is required''])],
        logged = [] \<rparr>"
  using validation_collects_every_violation [of utcRuntime emptyRequest]
  by (simp add: validate_emptyRequest) (simp add: emptyRequest_def)

text \<open>
  Claim C6, as stated (a date that fails to parse gives \<open>"Invalid date range"\<close> also when
  the other date is absent), fails: with \<^verbatim>\<open>startDate\<close> a string that is no date and
  \<^verbatim>\<open>endDate\<close> absent, the only error is that \<^verbatim>\<open>endDate\<close> is required. The date check
  stands behind \<^verbatim>\<open>if (body.startDate && body.endDate)\<close>.
\<close>

theorem date_check_needs_both_dates_counterexample:
  "newDate utcRuntime (Some ''soon'') = None
   \<and> validate utcRuntime (emptyRequest \<lparr> destination := Some ''Rome'', startDate := Some ''soon'' \<rparr>)
       = [''endDate is required'']"
  by (simp add: validate_eq emptyRequest_def truthy_def newDate_def utcRuntime_def isoDateParse_def)

text \<open>
  Claim C6, amended. When \<^verbatim>\<open>startDate\<close> and \<^verbatim>\<open>endDate\<close> are both present and not empty
  and one of them fails to parse, validation emits \<open>"Invalid date range"\<close> (whatever
  \<^verbatim>\<open>destination\<close> is); when one of the two is absent or empty, the date check is skipped
  and \<open>"Invalid date range"\<close> is not emitted.
\<close>

theorem date_check_needs_both_dates:
  "(truthy (startDate b) \<and> truthy (endDate b)
      \<and> (newDate rt (startDate b) = None \<or> newDate rt (endDate b) = None)
      \<longrightarrow> ''Invalid date range'' \<in> set (validate rt b))
   \<and> (\<not> (truthy (startDate b) \<and> truthy (endDate b))
      \<longrightarrow> ''Invalid date range'' \<notin> set (validate rt b))"
  by (auto simp: validate_eq)

text \<open>
  Claim C6, amended, on a request whose \<^verbatim>\<open>endDate\<close> is no date, and on one without
  \<^verbatim>\<open>endDate\<close>.
\<close>

theorem date_check_needs_both_dates_witness:
  "truthy (startDate (romeInJune \<lparr> endDate := Some ''soon'' \<rparr>))
   \<and> truthy (endDate (romeInJune \<lparr> endDate := Some ''soon'' \<rparr>))
   \<and> newDate utcRuntime (endDate (romeInJune \<lparr> endDate := Some ''soon'' \<rparr>)) = None
   \<and> ''Invalid date range'' \<in> set (validate utcRuntime (romeInJune \<lparr> endDate := Some ''soon'' \<rparr>))
   \<and> \<not> truthy (endDate (romeInJune \<lparr> endDate := None \<rparr>))
   \<and> ''Invalid date range'' \<notin> set (validate utcRuntime (romeInJune \<lparr> endDate := None \<rparr>))"
  using date_check_needs_both_dates [of "romeInJune \<lparr> endDate := Some ''soon'' \<rparr>" utcRuntime]
    date_check_needs_both_dates [of "romeInJune \<lparr> endDate := None \<rparr>" utcRuntime]
  by (simp add: romeInJune_def emptyRequest_def truthy_def newDate_def utcRuntime_def
      isoDateParse_def)

text \<open>
  Claim C10. Validation treats the empty string as it treats an absent property: for each
  of \<^verbatim>\<open>destination\<close>, \<^verbatim>\<open>startDate\<close>, \<^verbatim>\<open>endDate\<close>, a request that holds \<^verbatim>\<open>""\<close> there
  gets the error list of the request without the property, and the list includes
  \<open>"<field> is required"\<close>.
\<close>

theorem empty_string_counts_as_absent:
  "validate rt (b \<lparr> destination := Some [] \<rparr>) = validate rt (b \<lparr> destination := None \<rparr>)
   \<and> validate rt (b \<lparr> startDate := Some [] \<rparr>) = validate rt (b \<lparr> startDate := None \<rparr>)
   \<and> validate rt (b \<lparr> endDate := Some [] \<rparr>) = validate rt (b \<lparr> endDate := None \<rparr>)
   \<and> (destination b = Some [] \<longrightarrow> ''destination is required'' \<in> set (validate rt b))
   \<and> (startDate b = Some [] \<longrightarrow> ''startDate is required'' \<in> set (validate rt b))
   \<and> (endDate b = Some [] \<longrightarrow> ''endDate is required'' \<in> set (validate rt b))"
  by (simp add: validate_eq truthy_def)

text \<open>Claim C10, on the trip to Rome with \<^verbatim>\<open>destination: ""\<close>.\<close>

theorem empty_string_counts_as_absent_witness:
  "destination (romeInJune \<lparr> destination := Some [] \<rparr>) = Some []
   \<and> validate utcRuntime (romeInJune \<lparr> destination := Some [] \<rparr>) = [''destination is required'']
   \<and> validate utcRuntime (romeInJune \<lparr> destination := None \<rparr>) = [''destination is required'']"
  using empty_string_counts_as_absent [of utcRuntime "romeInJune \<lparr> destination := Some [] \<rparr>"]
  by (simp add: validate_eq romeInJune_def emptyRequest_def truthy_def newDate_def utcRuntime_def
      parse_june_1 parse_june_3 TimeClip_def maxTime_def dateLess_def)

section \<open>The template generator\<close>

lemma buildMockPlan_shape:
  "\<exists>dates. enumerateDates rt (startDate args) (endDate args) = Inr dates \<and>
     buildMockPlan rt args = Inr (JObj [
       (''destination'', optStr (destination args)),
       (''startDate'', optStr (startDate args)),
       (''endDate'', optStr (endDate args)),
       (''days'', JArr (mapIndexed (dayPlan args) dates)),
       (''budgetLevel'', optStr (budgetLevel args)),
       (''pace'', optStr (pace args))])"
proof -
  obtain dates where "enumerateDates rt (startDate args) (endDate args) = Inr dates"
    using enumerateDates_total by blast
  then show ?thesis by (simp add: buildMockPlan_def)
qed

lemma mockArgs_fields:
  "destination (mockArgs r) = destination r" "startDate (mockArgs r) = startDate r"
  "endDate (mockArgs r) = endDate r" "budgetLevel (mockArgs r) = budgetLevel r"
  "pace (mockArgs r) = pace r"
  by (simp_all add: mockArgs_def)

lemma withDefaults_fields:
  "destination (withDefaults b) = destination b" "startDate (withDefaults b) = startDate b"
  "endDate (withDefaults b) = endDate b"
  by (simp_all add: withDefaults_def)

lemma dayPlan_fields:
  assumes "destination a = destination b" and "budgetLevel a = budgetLevel b"
    and "pace a = pace b"
  shows "dayPlan a = dayPlan b"
  using assms by (simp add: dayPlan_def fun_eq_iff)

lemma buildMockPlan_fields:
  assumes "destination a = destination b" and "startDate a = startDate b"
    and "endDate a = endDate b" and "budgetLevel a = budgetLevel b" and "pace a = pace b"
  shows "buildMockPlan rt a = buildMockPlan rt b"
  using assms dayPlan_fields [of a b] by (simp add: buildMockPlan_def cong: sum.case_cong)

lemma date_dayPlan: "getProp ''date'' (dayPlan args d i) = JStr d"
  by (simp add: dayPlan_def)

lemma dates_mapIndexed:
  "map (getProp ''date'') (mapIndexed (dayPlan args) dates) = map JStr dates"
proof -
  have "map (getProp ''date'') (mapIndexed (dayPlan args) dates)
      = map (JStr \<circ> fst) (zip dates [0..<length dates])"
    by (simp add: mapIndexed_def date_dayPlan case_prod_unfold comp_def)
  also have "\<dots> = map JStr (map fst (zip dates [0..<length dates]))"
    by (simp only: map_map)
  also have "map fst (zip dates [0..<length dates]) = dates"
    by (rule map_fst_zip) simp
  finally show ?thesis .
qed

lemma datesOf_buildMockPlan:
  assumes "enumerateDates rt (startDate args) (endDate args) = Inr dates"
  shows "map_sum id datesOf (buildMockPlan rt args) = Inr (map JStr dates)"
  using assms by (simp add: buildMockPlan_def datesOf_def dates_mapIndexed)

text \<open>
  Claim C7. The template generator is total: for every request it throws nothing and
  returns its object, and the \<^verbatim>\<open>days\<close> of the object are the empty array when
  \<^verbatim>\<open>startDate\<close> or \<^verbatim>\<open>endDate\<close> fails to parse or \<^verbatim>\<open>endDate\<close> is before \<^verbatim>\<open>startDate\<close>.
\<close>

theorem template_generator_is_total:
  "\<exists>days. buildMockPlan rt args = Inr (JObj [
       (''destination'', optStr (destination args)),
       (''startDate'', optStr (startDate args)),
       (''endDate'', optStr (endDate args)),
       (''days'', JArr days),
       (''budgetLevel'', optStr (budgetLevel args)),
       (''pace'', optStr (pace args))])
     \<and> (newDate rt (startDate args) = None \<or> newDate rt (endDate args) = None
          \<or> dateLess (newDate rt (endDate args)) (newDate rt (startDate args))
        \<longrightarrow> days = [])"
proof -
  obtain dates where dates: "enumerateDates rt (startDate args) (endDate args) = Inr dates"
    and plan: "buildMockPlan rt args = Inr (JObj [
       (''destination'', optStr (destination args)),
       (''startDate'', optStr (startDate args)),
       (''endDate'', optStr (endDate args)),
       (''days'', JArr (mapIndexed (dayPlan args) dates)),
       (''budgetLevel'', optStr (budgetLevel args)),
       (''pace'', optStr (pace args))])"
    using buildMockPlan_shape by blast
  have "newDate rt (startDate args) = None \<or> newDate rt (endDate args) = None
          \<or> dateLess (newDate rt (endDate args)) (newDate rt (startDate args))
        \<longrightarrow> mapIndexed (dayPlan args) dates = []"
    using dates enumerateDates_degenerate [of rt "startDate args" "endDate args"]
    by (auto simp: mapIndexed_def)
  with plan show ?thesis by blast
qed

text \<open>Claim C7, on a request whose \<^verbatim>\<open>startDate\<close> is no date: the answer has no days.\<close>

theorem template_generator_is_total_witness:
  "newDate utcRuntime (startDate (romeInJune \<lparr> startDate := Some ''soon'' \<rparr>)) = None
   \<and> buildMockPlan utcRuntime (romeInJune \<lparr> startDate := Some ''soon'' \<rparr>) = Inr (JObj [
       (''destination'', JStr ''Rome''),
       (''startDate'', JStr ''soon''),
       (''endDate'', JStr ''2025-06-03''),
       (''days'', JArr []),
       (''budgetLevel'', JUndefined),
       (''pace'', JUndefined)])"
  using template_generator_is_total [of utcRuntime "romeInJune \<lparr> startDate := Some ''soon'' \<rparr>"]
  by (auto simp: romeInJune_def emptyRequest_def newDate_def utcRuntime_def isoDateParse_def
      optStr_def)

text \<open>
  Claim C8. The template generator is deterministic: its result is fixed by the request
  and by how the process parses dates and which zone it is in, so two calls with the same
  request give the same object (the same dates, the same number of entries, the same
  texts), whatever else differs between them (the API key, the model's answers). Each
  entry of \<^verbatim>\<open>days\<close> is the fixed pattern \<^term>\<open>dayPlan\<close> of the request, its date and its
  index.
\<close>

theorem template_generator_is_deterministic:
  "(dateParse rt' = dateParse rt \<and> localZone rt' = localZone rt
      \<longrightarrow> buildMockPlan rt' args = buildMockPlan rt args)
   \<and> (\<exists>dates. buildMockPlan rt args = Inr (JObj [
          (''destination'', optStr (destination args)),
          (''startDate'', optStr (startDate args)),
          (''endDate'', optStr (endDate args)),
          (''days'', JArr (mapIndexed (dayPlan args) dates)),
          (''budgetLevel'', optStr (budgetLevel args)),
          (''pace'', optStr (pace args))]))"
proof
  show "dateParse rt' = dateParse rt \<and> localZone rt' = localZone rt
      \<longrightarrow> buildMockPlan rt' args = buildMockPlan rt args"
  proof
    assume "dateParse rt' = dateParse rt \<and> localZone rt' = localZone rt"
    then have "enumerateDates rt' (startDate args) (endDate args)
        = enumerateDates rt (startDate args) (endDate args)"
      by (intro enumerateDates_runtime) simp_all
    then show "buildMockPlan rt' args = buildMockPlan rt args"
      by (simp add: buildMockPlan_def)
  qed
  show "\<exists>dates. buildMockPlan rt args = Inr (JObj [
          (''destination'', optStr (destination args)),
          (''startDate'', optStr (startDate args)),
          (''endDate'', optStr (endDate args)),
          (''days'', JArr (mapIndexed (dayPlan args) dates)),
          (''budgetLevel'', optStr (budgetLevel args)),
          (''pace'', optStr (pace args))])"
    using buildMockPlan_shape [of rt args] by blast
qed

text \<open>
  Claim C8, on the trip to Rome of the specification's example: a server whose model
  fails and one without a key build the same plan, of the three days 2025-06-01 to
  2025-06-03.
\<close>

theorem template_generator_is_deterministic_witness:
  "dateParse (failingRuntime (Thrown None)) = dateParse utcRuntime
   \<and> localZone (failingRuntime (Thrown None)) = localZone utcRuntime
   \<and> buildMockPlan (failingRuntime (Thrown None)) romeInJune = buildMockPlan utcRuntime romeInJune
   \<and> map_sum id datesOf (buildMockPlan utcRuntime romeInJune)
       = Inr [JStr ''2025-06-01'', JStr ''2025-06-02'', JStr ''2025-06-03'']"
proof -
  have same: "dateParse (failingRuntime (Thrown None)) = dateParse utcRuntime
      \<and> localZone (failingRuntime (Thrown None)) = localZone utcRuntime"
    by (simp add: failingRuntime_def)
  have "enumerateDates utcRuntime (startDate romeInJune) (endDate romeInJune)
      = Inr [''2025-06-01'', ''2025-06-02'', ''2025-06-03'']"
    using enumerateDates_june by (simp add: romeInJune_def emptyRequest_def)
  then have "map_sum id datesOf (buildMockPlan utcRuntime romeInJune)
       = Inr [JStr ''2025-06-01'', JStr ''2025-06-02'', JStr ''2025-06-03'']"
    by (simp add: datesOf_buildMockPlan)
  with same template_generator_is_deterministic [of "failingRuntime (Thrown None)" utcRuntime romeInJune]
  show ?thesis by simp
qed

text \<open>
  Claim C9. The result of the template generator depends on \<^verbatim>\<open>destination\<close>,
  \<^verbatim>\<open>startDate\<close>, \<^verbatim>\<open>endDate\<close>, \<^verbatim>\<open>budgetLevel\<close> and \<^verbatim>\<open>pace\<close> only: two requests
  that agree on these give the same plan, whatever their \<^verbatim>\<open>travelers\<close>, \<^verbatim>\<open>interests\<close>
  and \<^verbatim>\<open>extras\<close>, both as they are and as the endpoint passes them on.
\<close>

theorem template_ignores_other_fields:
  "destination a = destination b \<and> startDate a = startDate b \<and> endDate a = endDate b
     \<and> budgetLevel a = budgetLevel b \<and> pace a = pace b
   \<longrightarrow> buildMockPlan rt a = buildMockPlan rt b
       \<and> buildMockPlan rt (mockArgs (withDefaults a)) = buildMockPlan rt (mockArgs (withDefaults b))"
proof (intro impI conjI)
  assume same: "destination a = destination b \<and> startDate a = startDate b
    \<and> endDate a = endDate b \<and> budgetLevel a = budgetLevel b \<and> pace a = pace b"
  then show "buildMockPlan rt a = buildMockPlan rt b"
    by (intro buildMockPlan_fields) simp_all
  from same show "buildMockPlan rt (mockArgs (withDefaults a))
      = buildMockPlan rt (mockArgs (withDefaults b))"
    by (intro buildMockPlan_fields) (simp_all add: mockArgs_def withDefaults_def)
qed

text \<open>
  Claim C9, on two trips to Rome that differ in \<^verbatim>\<open>travelers\<close>, \<^verbatim>\<open>interests\<close> and
  \<^verbatim>\<open>extras\<close>.
\<close>

theorem template_ignores_other_fields_witness:
  "destination familyTrip = destination romeInJune \<and> startDate familyTrip = startDate romeInJune
   \<and> endDate familyTrip = endDate romeInJune \<and> budgetLevel familyTrip = budgetLevel romeInJune
   \<and> pace familyTrip = pace romeInJune
   \<and> travelers familyTrip \<noteq> travelers romeInJune \<and> interests familyTrip \<noteq> interests romeInJune
   \<and> extras familyTrip \<noteq> extras romeInJune
   \<and> buildMockPlan utcRuntime familyTrip = buildMockPlan utcRuntime romeInJune
   \<and> buildMockPlan utcRuntime (mockArgs (withDefaults familyTrip))
       = buildMockPlan utcRuntime (mockArgs (withDefaults romeInJune))"
  using template_ignores_other_fields [of familyTrip romeInJune utcRuntime]
  by (simp add: familyTrip_def romeInJune_def emptyRequest_def)

text \<open>
  In a zone without daylight saving time the template generator lists the days of the
  range: with \<open>s\<close> and \<open>e\<close> the instants that the two dates parse to, there are
  \<open>(e - s) div msPerDay + 1\<close> entries and entry \<open>i\<close> has the UTC date of \<open>s\<close> plus
  \<open>i\<close> days.
\<close>

lemma template_dates_without_dst:
  assumes "dstPeriods (localZone rt) = []"
    and "newDate rt (startDate args) = Some s" and "newDate rt (endDate args) = Some e"
  shows "map_sum id datesOf (buildMockPlan rt args) = Inr (map JStr (daysFrom s e))"
    and "length (daysFrom s e) = nat ((e - s) div msPerDay + 1)"
    and "\<forall>i < length (daysFrom s e). daysFrom s e ! i = isoDate (s + int i * msPerDay)"
  using assms by (simp_all add: datesOf_buildMockPlan enumerateDates_fixed daysFrom_def)

text \<open>
  Claim C4 (the template generator produces \<open>(endDate - startDate in days) + 1\<close> entries,
  entry \<open>i\<close> dated \<open>startDate + i\<close> days) fails on a server whose zone has daylight
  saving time: \<^verbatim>\<open>setDate\<close> and \<^verbatim>\<open>getDate\<close> step through local days while the dates are
  parsed, compared and printed in UTC. In New York, for 2025-11-01 to 2025-11-03, the
  third step lands on 2025-11-03T01:00Z, after the end, and the plan has two entries
  where the range has three days.
\<close>

theorem template_loses_a_day_when_dst_ends:
  "validate newYorkRuntime romeInNovember = []
   \<and> newDate newYorkRuntime (startDate romeInNovember) = Some 1761955200000
   \<and> newDate newYorkRuntime (endDate romeInNovember) = Some 1762128000000
   \<and> (1762128000000 - 1761955200000) div msPerDay + 1 = 3
   \<and> map_sum id datesOf (buildMockPlan newYorkRuntime (mockArgs (withDefaults romeInNovember)))
       = Inr [JStr ''2025-11-01'', JStr ''2025-11-02'']"
proof -
  have parse: "dateParse newYorkRuntime = isoDateParse"
    by (simp add: newYorkRuntime_def utcRuntime_def)
  have s: "newDate newYorkRuntime (startDate romeInNovember) = Some 1761955200000"
    by (simp add: newDate_def parse romeInNovember_def emptyRequest_def parse_november_1
        TimeClip_def maxTime_def)
  have e: "newDate newYorkRuntime (endDate romeInNovember) = Some 1762128000000"
    by (simp add: newDate_def parse romeInNovember_def emptyRequest_def parse_november_3
        TimeClip_def maxTime_def)
  have valid: "validate newYorkRuntime romeInNovember = []"
    using s e by (simp add: validate_eq dateLess_def) (simp add: romeInNovember_def emptyRequest_def truthy_def)
  have "enumerateDates newYorkRuntime (startDate (mockArgs (withDefaults romeInNovember)))
          (endDate (mockArgs (withDefaults romeInNovember)))
      = Inr [''2025-11-01'', ''2025-11-02'']"
    using enumerateDates_november_newYork
    by (simp add: mockArgs_fields withDefaults_fields) (simp add: romeInNovember_def emptyRequest_def)
  then have "map_sum id datesOf (buildMockPlan newYorkRuntime (mockArgs (withDefaults romeInNovember)))
       = Inr [JStr ''2025-11-01'', JStr ''2025-11-02'']"
    by (simp add: datesOf_buildMockPlan)
  with valid s e show ?thesis
    by (simp add: msPerDay_def)
qed

section \<open>The answers of the endpoint\<close>

lemma planned_mock:
  "planned source (JObj [(''destination'', a), (''startDate'', b), (''endDate'', c),
       (''days'', d), (''budgetLevel'', e), (''pace'', f)]) entries
     = \<lparr> status = 200,
         body = JObj [(''ok'', JBool True), (''source'', JStr source), (''destination'', a),
           (''startDate'', b), (''endDate'', c), (''days'', d), (''budgetLevel'', e), (''pace'', f)],
         logged = entries \<rparr>"
  by (simp add: planned_def spreadInto_def)

text \<open>A fallback answer, written out.\<close>

lemma mockReply_shape:
  "\<exists>dates. enumerateDates rt (startDate r) (endDate r) = Inr dates \<and>
     buildMockPlan rt (mockArgs r) = Inr (JObj [
       (''destination'', optStr (destination r)),
       (''startDate'', optStr (startDate r)),
       (''endDate'', optStr (endDate r)),
       (''days'', JArr (mapIndexed (dayPlan (mockArgs r)) dates)),
       (''budgetLevel'', optStr (budgetLevel r)),
       (''pace'', optStr (pace r))]) \<and>
     mockReply rt r source entries = Inr \<lparr> status = 200,
       body = JObj [
         (''ok'', JBool True),
         (''source'', JStr source),
         (''destination'', optStr (destination r)),
         (''startDate'', optStr (startDate r)),
         (''endDate'', optStr (endDate r)),
         (''days'', JArr (mapIndexed (dayPlan (mockArgs r)) dates)),
         (''budgetLevel'', optStr (budgetLevel r)),
         (''pace'', optStr (pace r))],
       logged = entries \<rparr>"
proof -
  obtain dates where
    "enumerateDates rt (startDate (mockArgs r)) (endDate (mockArgs r)) = Inr dates"
    and "buildMockPlan rt (mockArgs r) = Inr (JObj [
       (''destination'', optStr (destination (mockArgs r))),
       (''startDate'', optStr (startDate (mockArgs r))),
       (''endDate'', optStr (endDate (mockArgs r))),
       (''days'', JArr (mapIndexed (dayPlan (mockArgs r)) dates)),
       (''budgetLevel'', optStr (budgetLevel (mockArgs r))),
       (''pace'', optStr (pace (mockArgs r)))])"
    using buildMockPlan_shape [of rt "mockArgs r"] by blast
  then show ?thesis
    by (simp add: mockReply_def planned_mock mockArgs_fields)
qed


lemma planHandler_raises:
  "validate rt b = [] \<Longrightarrow> truthy (apiKey rt)
     \<Longrightarrow> generateContent rt (prompt (withDefaults b)) = Raises err
     \<Longrightarrow> planHandler rt b = mockReply rt (withDefaults b) ''error-mock'' [logError err]"
  by (simp add: planHandler_def tryBlock_def)



lemma isArray_days_object:
  assumes "isArray (getProp ''days'' v)"
  obtains kvs where "v = JObj kvs"
  using assms by (cases v) simp_all






lemma failingRuntime_fields:
  "dateParse (failingRuntime err) = isoDateParse"
  "truthy (apiKey (failingRuntime err))"
  "generateContent (failingRuntime err) p = Raises err"
  by (simp_all add: failingRuntime_def utcRuntime_def truthy_def)


text \<open>
  Claim C1, as stated (an error raised by the model is logged by its message only), fails
  for an error whose message is empty: \<^verbatim>\<open>err?.message || err\<close> then logs the thrown
  value itself.
\<close>

theorem generation_error_log_counterexample:
  "validate (failingRuntime (Thrown (Some []))) romeInJune = []
   \<and> truthy (apiKey (failingRuntime (Thrown (Some []))))
   \<and> generateContent (failingRuntime (Thrown (Some []))) (prompt (withDefaults romeInJune))
       = Raises (Thrown (Some []))
   \<and> answerLog (planHandler (failingRuntime (Thrown (Some []))) romeInJune)
       = Some [[LogStr ''AI error:'', LogErr (Thrown (Some []))]]"
proof -
  let ?rt = "failingRuntime (Thrown (Some []))"
  have valid: "validate ?rt romeInJune = []"
    by (simp add: validate_romeInJune failingRuntime_fields)
  have key: "truthy (apiKey ?rt)"
    by (rule failingRuntime_fields)
  have raises: "generateContent ?rt (prompt (withDefaults romeInJune)) = Raises (Thrown (Some []))"
    by (rule failingRuntime_fields)
  have "planHandler ?rt romeInJune
      = mockReply ?rt (withDefaults romeInJune) ''error-mock'' [logError (Thrown (Some []))]"
    using valid key raises by (rule planHandler_raises)
  then have "answerLog (planHandler ?rt romeInJune) = Some [logError (Thrown (Some []))]"
    using mockReply_shape [of ?rt "withDefaults romeInJune" "''error-mock''"
        "[logError (Thrown (Some []))]"]
    by (auto simp: answerLog_def)
  with valid key raises show ?thesis
    by (simp add: logError_def)
qed

text \<open>
  Claim C1, amended. For every request that passes validation, when a key is configured
  and the call to the model throws, the handler throws nothing on: it answers HTTP 200
  with \<^verbatim>\<open>ok: true\<close>, \<^verbatim>\<open>source: 'error-mock'\<close> and the plan of the template generator,
  and it logs once, \<^verbatim>\<open>'AI error:'\<close> with the message of the error when that is not
  empty and with the thrown value itself otherwise.
\<close>

theorem generation_error_falls_back:
  assumes "validate rt b = []" and "truthy (apiKey rt)"
    and "generateContent rt (prompt (withDefaults b)) = Raises err"
  shows "\<exists>days.
     buildMockPlan rt (mockArgs (withDefaults b)) = Inr (JObj [
       (''destination'', optStr (destination b)),
       (''startDate'', optStr (startDate b)),
       (''endDate'', optStr (endDate b)),
       (''days'', JArr days),
       (''budgetLevel'', optStr (budgetLevel (withDefaults b))),
       (''pace'', optStr (pace (withDefaults b)))]) \<and>
     planHandler rt b = Inr \<lparr> status = 200,
       body = JObj [
         (''ok'', JBool True),
         (''source'', JStr ''error-mock''),
         (''destination'', optStr (destination b)),
         (''startDate'', optStr (startDate b)),
         (''endDate'', optStr (endDate b)),
         (''days'', JArr days),
         (''budgetLevel'', optStr (budgetLevel (withDefaults b))),
         (''pace'', optStr (pace (withDefaults b)))],
       logged = [[LogStr ''AI error:'',
                  (case message err of
                     None \<Rightarrow> LogErr err
                   | Some m \<Rightarrow> if m \<noteq> [] then LogStr m else LogErr err)]] \<rparr>"
proof -
  have "planHandler rt b = mockReply rt (withDefaults b) ''error-mock'' [logError err]"
    using assms by (rule planHandler_raises)
  then show ?thesis
    using mockReply_shape [of rt "withDefaults b" "''error-mock''" "[logError err]"]
    by (auto simp: withDefaults_fields logError_def)
qed

text \<open>
  Claim C1, amended, on the trip to Rome with a model that throws \<open>quota exceeded\<close>.
\<close>

theorem generation_error_falls_back_witness:
  "validate (failingRuntime (Thrown (Some ''quota exceeded''))) romeInJune = []
   \<and> truthy (apiKey (failingRuntime (Thrown (Some ''quota exceeded''))))
   \<and> generateContent (failingRuntime (Thrown (Some ''quota exceeded'')))
        (prompt (withDefaults romeInJune)) = Raises (Thrown (Some ''quota exceeded''))
   \<and> answerStatus (planHandler (failingRuntime (Thrown (Some ''quota exceeded''))) romeInJune)
        = Some 200
   \<and> answerProp ''ok'' (planHandler (failingRuntime (Thrown (Some ''quota exceeded''))) romeInJune)
        = Some (JBool True)
   \<and> answerProp ''source'' (planHandler (failingRuntime (Thrown (Some ''quota exceeded''))) romeInJune)
        = Some (JStr ''error-mock'')
   \<and> answerLog (planHandler (failingRuntime (Thrown (Some ''quota exceeded''))) romeInJune)
        = Some [[LogStr ''AI error:'', LogStr ''quota exceeded'']]"
proof -
  let ?rt = "failingRuntime (Thrown (Some ''quota exceeded''))"
  have valid: "validate ?rt romeInJune = []"
    by (simp add: validate_romeInJune failingRuntime_fields)
  have key: "truthy (apiKey ?rt)"
    by (rule failingRuntime_fields)
  have raises: "generateContent ?rt (prompt (withDefaults romeInJune))
      = Raises (Thrown (Some ''quota exceeded''))"
    by (rule failingRuntime_fields)
  from generation_error_falls_back [OF valid key raises]
  show ?thesis
    using valid key raises
    by (auto simp: answerStatus_def answerProp_def answerLog_def)
qed







end
